theory Spec2Isabelle
  imports Main
begin

section \<open>The wiki server of wiki.go\<close>

text \<open>
  The program is a small wiki: a page is a title and a body, stored in the file
  \<^verbatim>\<open><title>.txt\<close> of the working directory, and three HTTP handlers view, edit and
  save pages. The handlers call into Go's standard library (\<^verbatim>\<open>io/ioutil\<close>,
  \<^verbatim>\<open>regexp\<close>, \<^verbatim>\<open>net/http\<close>, \<^verbatim>\<open>html/template\<close>); each library
  function used is modelled below, next to the code that calls it, from its documented
  behaviour. Go strings and byte slices are both sequences of bytes, and are both lists
  of \<^typ>\<open>char\<close> here; a nil slice and an empty slice are the same empty list.
\<close>

type_synonym bytes = "char list"

definition newline :: char where
  "newline = CHR 0x0A"

subsection \<open>Pages\<close>

record Page =
  Title :: string
  Body :: bytes

subsection \<open>The working directory and standard output\<close>

text \<open>
  The directory maps a name, a path as the program writes it, to an entry: a regular file
  (its bytes and its permission bits) or a directory. The errors of opening a name are
  those of the operating system (the limits are those of Linux): a path of 4096 bytes
  or more, or a last component of more than 255 bytes, is too long; a name below a
  directory needs that directory to be there; a directory cannot be opened for
  writing. Whatever else makes a write fail (no permission on the file or its directory,
  a read-only volume, a full disk, a failing device) is decided by the world outside
  the program: it is a part of the state, \<open>faults\<close>, which gives for a name the failure
  that a write to it meets, before the file is touched (\<open>Refuse\<close>) or after the file has
  been created or truncated and some of the bytes written (\<open>Cut\<close>); a write that fails
  is not rolled back. The process umask is not modelled: a file is created with exactly
  the permission bits asked for. A regular file that is there can be read: access
  control on reads is not modelled.
\<close>

datatype node = File bytes nat | Dir

datatype errno =
  ENOENT | EISDIR | ENOTDIR | ENAMETOOLONG | EACCES | EROFS | ENOSPC | EIO

datatype fault = Refuse errno | Cut errno nat

record PathError =
  Op :: string
  Path :: string
  Err :: errno

fun errno_Error :: "errno \<Rightarrow> string" where
  "errno_Error ENOENT = ''no such file or directory''"
| "errno_Error EISDIR = ''is a directory''"
| "errno_Error ENOTDIR = ''not a directory''"
| "errno_Error ENAMETOOLONG = ''file name too long''"
| "errno_Error EACCES = ''permission denied''"
| "errno_Error EROFS = ''read-only file system''"
| "errno_Error ENOSPC = ''no space left on device''"
| "errno_Error EIO = ''input/output error''"

definition PathError_Error :: "PathError \<Rightarrow> string" where
  "PathError_Error e = Op e @ '' '' @ Path e @ '': '' @ errno_Error (Err e)"

record world =
  files :: "string \<rightharpoonup> node"
  stdout :: string
  faults :: "string \<rightharpoonup> fault"

text \<open>
  The last component of a path, and the directory part before its last slash (none
  when the path has no slash; empty for a path directly below the root).
\<close>

definition basename :: "string \<Rightarrow> string" where
  "basename name = rev (takeWhile (\<lambda>c. c \<noteq> CHR ''/'') (rev name))"

definition dirname :: "string \<Rightarrow> string option" where
  "dirname name =
     (if CHR ''/'' \<in> set name
      then Some (rev (tl (dropWhile (\<lambda>c. c \<noteq> CHR ''/'') (rev name))))
      else None)"

text \<open>
  The error, if any, of finding the place of a name, for reading or for writing: the
  name is too long, or its directory part is not there or is not a directory. Opening
  for writing with creation fails also on a directory.
\<close>

definition path_error :: "string \<Rightarrow> world \<Rightarrow> errno option" where
  "path_error name wd =
     (if 4096 \<le> length name \<or> 255 < length (basename name) then Some ENAMETOOLONG
      else
        (case dirname name of
           None \<Rightarrow> None
         | Some d \<Rightarrow>
             (if d = [] then None
              else (case files wd d of
                      None \<Rightarrow> Some ENOENT
                    | Some (File old mode) \<Rightarrow> Some ENOTDIR
                    | Some Dir \<Rightarrow> None))))"

definition open_error :: "string \<Rightarrow> world \<Rightarrow> errno option" where
  "open_error name wd =
     (case path_error name wd of
        Some e \<Rightarrow> Some e
      | None \<Rightarrow> (case files wd name of Some Dir \<Rightarrow> Some EISDIR | _ \<Rightarrow> None))"

text \<open>
  \<^verbatim>\<open>ioutil.WriteFile(name, data, perm)\<close>: "writes data to a file named by filename. If
  the file does not exist, WriteFile creates it with permissions perm; otherwise
  WriteFile truncates it before writing, without changing permissions." It opens the
  file, writes and closes, and returns the first error of the three.
\<close>

definition mode_after :: "string \<Rightarrow> nat \<Rightarrow> world \<Rightarrow> nat" where
  "mode_after name perm wd =
     (case files wd name of Some (File old mode) \<Rightarrow> mode | _ \<Rightarrow> perm)"

definition WriteFile :: "string \<Rightarrow> bytes \<Rightarrow> nat \<Rightarrow> world \<Rightarrow> PathError option \<times> world" where
  "WriteFile name data perm wd =
     (case open_error name wd of
        Some e \<Rightarrow> (Some \<lparr>Op = ''open'', Path = name, Err = e\<rparr>, wd)
      | None \<Rightarrow>
          (case faults wd name of
             Some (Refuse e) \<Rightarrow> (Some \<lparr>Op = ''open'', Path = name, Err = e\<rparr>, wd)
           | Some (Cut e n) \<Rightarrow>
               (Some \<lparr>Op = ''write'', Path = name, Err = e\<rparr>,
                wd\<lparr>files := (files wd)(name \<mapsto> File (take n data) (mode_after name perm wd))\<rparr>)
           | None \<Rightarrow>
               (None,
                wd\<lparr>files := (files wd)(name \<mapsto> File data (mode_after name perm wd))\<rparr>)))"

text \<open>\<^verbatim>\<open>ioutil.ReadFile(name)\<close>: the whole contents of the file, or an error.\<close>

definition ReadFile :: "string \<Rightarrow> world \<Rightarrow> PathError + bytes" where
  "ReadFile name wd =
     (case path_error name wd of
        Some e \<Rightarrow> Inl \<lparr>Op = ''open'', Path = name, Err = e\<rparr>
      | None \<Rightarrow>
          (case files wd name of
             None \<Rightarrow> Inl \<lparr>Op = ''open'', Path = name, Err = ENOENT\<rparr>
           | Some (File data mode) \<Rightarrow> Inr data
           | Some Dir \<Rightarrow> Inl \<lparr>Op = ''read'', Path = name, Err = EISDIR\<rparr>))"

subsection \<open>The page store: save and loadpage\<close>

text \<open>
  Both functions compute the local variable \<^verbatim>\<open>filename\<close> the same way, from the
  title. The permission argument of \<^verbatim>\<open>save\<close> is octal 0600, which is 384.
\<close>

definition filename :: "string \<Rightarrow> string" where
  "filename title = title @ ''.txt''"

definition save :: "Page \<Rightarrow> world \<Rightarrow> PathError option \<times> world" where
  "save p wd = WriteFile (filename (Title p)) (Body p) 384 wd"

definition loadpage :: "string \<Rightarrow> world \<Rightarrow> PathError + Page" where
  "loadpage title wd =
     (case ReadFile (filename title) wd of
        Inl err \<Rightarrow> Inl err
      | Inr body \<Rightarrow> Inr \<lparr>Title = title, Body = body\<rparr>)"

subsection \<open>Regular expressions\<close>

text \<open>
  The fragment of Go's \<^verbatim>\<open>regexp\<close> syntax that \<^verbatim>\<open>validPath\<close> is written in:
  the anchors, literal characters, character classes given by ranges, sequence,
  alternation, one-or-more repetition and numbered capturing groups. A thread of the
  matcher is the number of bytes before the current position, the text from that
  position on, and the groups captured so far (latest first). \<open>run\<close> lists the threads
  on which an expression can finish, in the order of preference of a backtracking
  matcher (the first alternative first, the longest repetition first); Go returns the
  match that such a matcher finds first.
\<close>

datatype rexp =
    Eps
  | Bol
  | Eol
  | Chr char
  | Cls "(char \<times> char) list"
  | Seq rexp rexp
  | Alt rexp rexp
  | Plus rexp
  | Grp nat rexp

type_synonym thread = "nat \<times> string \<times> (nat \<times> string) list"

definition in_ranges :: "(char \<times> char) list \<Rightarrow> char \<Rightarrow> bool" where
  "in_ranges rs c =
     list_ex (\<lambda>(lo, hi). (of_char lo :: nat) \<le> of_char c \<and> (of_char c :: nat) \<le> of_char hi) rs"

fun run :: "rexp \<Rightarrow> thread \<Rightarrow> thread list" where
  "run Eps (i, s, c) = [(i, s, c)]"
| "run Bol (i, s, c) = (if i = 0 then [(i, s, c)] else [])"
| "run Eol (i, s, c) = (if s = [] then [(i, s, c)] else [])"
| "run (Chr a) (i, s, c) =
     (case s of [] \<Rightarrow> [] | x # xs \<Rightarrow> if x = a then [(Suc i, xs, c)] else [])"
| "run (Cls rs) (i, s, c) =
     (case s of [] \<Rightarrow> [] | x # xs \<Rightarrow> if in_ranges rs x then [(Suc i, xs, c)] else [])"
| "run (Seq a b) (i, s, c) = concat (map (run b) (run a (i, s, c)))"
| "run (Alt a b) (i, s, c) = run a (i, s, c) @ run b (i, s, c)"
| "run (Plus a) (i, s, c) =
     concat (map (\<lambda>(j, t, d).
        if length t < length s then run (Plus a) (j, t, d) @ [(j, t, d)] else [(j, t, d)])
       (run a (i, s, c)))"
| "run (Grp n a) (i, s, c) =
     map (\<lambda>(j, t, d). (j, t, (n, take (j - i) s) # d)) (run a (i, s, c))"

text \<open>A literal string, and the numbers of the groups of an expression, left to right.\<close>

fun Str :: "string \<Rightarrow> rexp" where
  "Str [] = Eps"
| "Str (x # xs) = Seq (Chr x) (Str xs)"

fun groups :: "rexp \<Rightarrow> nat list" where
  "groups (Seq a b) = groups a @ groups b"
| "groups (Alt a b) = groups a @ groups b"
| "groups (Plus a) = groups a"
| "groups (Grp n a) = n # groups a"
| "groups _ = []"

text \<open>
  The unanchored search of \<^verbatim>\<open>FindStringSubmatch\<close>: the leftmost position at which
  the expression matches, with the preferred match there.
\<close>

fun scan :: "rexp \<Rightarrow> nat \<Rightarrow> string \<Rightarrow> (nat \<times> thread) option" where
  "scan re i [] = (case run re (i, [], []) of [] \<Rightarrow> None | m # _ \<Rightarrow> Some (i, m))"
| "scan re i (x # xs) =
     (case run re (i, x # xs, []) of [] \<Rightarrow> scan re (Suc i) xs | m # _ \<Rightarrow> Some (i, m))"

text \<open>
  \<^verbatim>\<open>re.FindStringSubmatch(s)\<close>: nil when there is no match; otherwise the text of the
  match followed by the text of each group (empty for a group that took no part).
\<close>

definition FindStringSubmatch :: "rexp \<Rightarrow> string \<Rightarrow> string list option" where
  "FindStringSubmatch re s =
     (case scan re 0 s of
        None \<Rightarrow> None
      | Some (i, (j, t, caps)) \<Rightarrow>
          Some (take (j - i) (drop i s) #
                map (\<lambda>n. case map_of caps n of None \<Rightarrow> [] | Some g \<Rightarrow> g) (groups re)))"

text \<open>\<^verbatim>\<open>regexp.MustCompile("^/(save|edit|view)/([a-zA-Z0-9]+)$")\<close>\<close>

definition validPath :: rexp where
  "validPath =
     Seq Bol (Seq (Chr CHR ''/'')
       (Seq (Grp 1 (Alt (Str ''save'') (Alt (Str ''edit'') (Str ''view''))))
         (Seq (Chr CHR ''/'')
           (Seq (Grp 2 (Plus (Cls [(CHR ''a'', CHR ''z''), (CHR ''A'', CHR ''Z''),
                                   (CHR ''0'', CHR ''9'')])))
             Eol))))"

subsection \<open>Requests and responses\<close>

text \<open>
  Of a request the handlers use the method, the path of the URL, and the form values:
  the parameters of the URL's query and those of a form-encoded body. \<open>FormValue\<close>
  follows \<^verbatim>\<open>net/http\<close>: the body is read for POST, PUT and PATCH only, its
  parameters come before those of the query, and a key with no value gives the empty
  string.
\<close>

record request =
  Method :: string
  URL_Path :: string
  URL_Query :: "(string \<times> string) list"
  BodyForm :: "(string \<times> string) list"

definition Form :: "request \<Rightarrow> (string \<times> string) list" where
  "Form r =
     (if Method r = ''POST'' \<or> Method r = ''PUT'' \<or> Method r = ''PATCH''
      then BodyForm r else []) @ URL_Query r"

definition FormValue :: "request \<Rightarrow> string \<Rightarrow> string" where
  "FormValue r key = (case map_of (Form r) key of None \<Rightarrow> [] | Some v \<Rightarrow> v)"

text \<open>
  A response writer: the status code once the header has been written, the headers as
  they are sent (setting one after the header has been written has no effect on the
  response), and the body written so far. The first write sends status 200 if none was
  sent; a second \<^verbatim>\<open>WriteHeader\<close> is ignored. A handler that returns without
  writing anything answers 200.
\<close>

record ResponseWriter =
  status :: "nat option"
  header :: "string \<rightharpoonup> string"
  body :: string

definition new_response :: ResponseWriter where
  "new_response = \<lparr>status = None, header = Map.empty, body = []\<rparr>"

definition Header_Set :: "ResponseWriter \<Rightarrow> string \<Rightarrow> string \<Rightarrow> ResponseWriter" where
  "Header_Set w k v = (if status w = None then w\<lparr>header := (header w)(k \<mapsto> v)\<rparr> else w)"

definition Header_Del :: "ResponseWriter \<Rightarrow> string \<Rightarrow> ResponseWriter" where
  "Header_Del w k = (if status w = None then w\<lparr>header := (header w)(k := None)\<rparr> else w)"

definition WriteHeader :: "ResponseWriter \<Rightarrow> nat \<Rightarrow> ResponseWriter" where
  "WriteHeader w code = (if status w = None then w\<lparr>status := Some code\<rparr> else w)"

definition Write :: "ResponseWriter \<Rightarrow> string \<Rightarrow> ResponseWriter" where
  "Write w data = (let w' = WriteHeader w 200 in w'\<lparr>body := body w' @ data\<rparr>)"

definition sent_status :: "ResponseWriter \<Rightarrow> nat" where
  "sent_status w = (case status w of None \<Rightarrow> 200 | Some code \<Rightarrow> code)"

text \<open>
  \<^verbatim>\<open>http.Error(w, msg, code)\<close> sets the headers of a plain-text reply, writes the
  status and prints the message as a line. \<^verbatim>\<open>http.NotFound\<close> is
  \<^verbatim>\<open>http.Error(w, "404 page not found", 404)\<close>.
\<close>

definition http_Error :: "ResponseWriter \<Rightarrow> string \<Rightarrow> nat \<Rightarrow> ResponseWriter" where
  "http_Error w msg code =
     (let w1 = Header_Del w ''Content-Length'';
          w2 = Header_Set w1 ''Content-Type'' ''text/plain; charset=utf-8'';
          w3 = Header_Set w2 ''X-Content-Type-Options'' ''nosniff'';
          w4 = WriteHeader w3 code
      in Write w4 (msg @ [newline]))"

definition http_NotFound :: "ResponseWriter \<Rightarrow> request \<Rightarrow> ResponseWriter" where
  "http_NotFound w r = http_Error w ''404 page not found'' 404"

text \<open>
  \<^verbatim>\<open>http.Redirect(w, r, url, code)\<close>, for a target that is an absolute path
  already in its shortest form with no query, as the one \<^verbatim>\<open>saveHandler\<close> builds
  from a valid title is: the \<^verbatim>\<open>Location\<close> header is the target, and a GET request
  also gets a short HTML body.
\<close>

fun htmlEscape_char :: "char \<Rightarrow> string" where
  "htmlEscape_char c =
     (if c = CHR ''&'' then ''&amp;''
      else if c = CHR ''<'' then ''&lt;''
      else if c = CHR ''>'' then ''&gt;''
      else if c = CHR 0x22 then ''&#34;''
      else if c = CHR 0x27 then ''&#39;''
      else [c])"

definition htmlEscape :: "string \<Rightarrow> string" where
  "htmlEscape s = concat (map htmlEscape_char s)"

definition StatusText :: "nat \<Rightarrow> string" where
  "StatusText code =
     (if code = 302 then ''Found''
      else if code = 404 then ''Not Found''
      else if code = 500 then ''Internal Server Error''
      else [])"

definition http_Redirect :: "ResponseWriter \<Rightarrow> request \<Rightarrow> string \<Rightarrow> nat \<Rightarrow> ResponseWriter" where
  "http_Redirect w r url code =
     (let hadCT = (header w ''Content-Type'' \<noteq> None);
          w1 = Header_Set w ''Location'' url;
          w2 = (if \<not> hadCT \<and> (Method r = ''GET'' \<or> Method r = ''HEAD'')
                then Header_Set w1 ''Content-Type'' ''text/html; charset=utf-8'' else w1);
          w3 = WriteHeader w2 code
      in if \<not> hadCT \<and> Method r = ''GET''
         then Write w3 (''<a href='' @ [CHR 0x22] @ htmlEscape url @ [CHR 0x22] @ ''>''
                        @ StatusText code @ ''</a>.'' @ [newline] @ [newline])
         else w3)"

subsection \<open>Templates\<close>

text \<open>
  The two template files are not part of the source: the set of parsed templates is a
  parameter. A template, run on a page, writes pieces of output and then either finishes
  or fails with a message. \<^verbatim>\<open>ExecuteTemplate\<close> fails without writing when the name
  is not defined.
\<close>

type_synonym template = "Page \<Rightarrow> string list \<times> string option"

type_synonym templates = "string \<rightharpoonup> template"

definition ExecuteTemplate ::
  "templates \<Rightarrow> ResponseWriter \<Rightarrow> string \<Rightarrow> Page \<Rightarrow> ResponseWriter \<times> string option" where
  "ExecuteTemplate ts w name p =
     (case ts name of
        None \<Rightarrow> (w, Some (''html/template: '' @ [CHR 0x22] @ name @ [CHR 0x22] @ '' is undefined''))
      | Some t \<Rightarrow> (case t p of (pieces, err) \<Rightarrow> (foldl Write w pieces, err)))"

definition renderTemplate :: "templates \<Rightarrow> ResponseWriter \<Rightarrow> string \<Rightarrow> Page \<Rightarrow> ResponseWriter" where
  "renderTemplate ts w tmpl p =
     (case ExecuteTemplate ts w (tmpl @ ''.html'') p of
        (w', None) \<Rightarrow> w'
      | (w', Some err) \<Rightarrow> http_Error w' (''soemthing weird is happening: '' @ err) 500)"

subsection \<open>Title extraction\<close>

text \<open>\<^verbatim>\<open>fmt.Println\<close> of a slice of strings: the strings between brackets, on a line.\<close>

fun join_space :: "string list \<Rightarrow> string" where
  "join_space [] = []"
| "join_space [x] = x"
| "join_space (x # y # ys) = x @ '' '' @ join_space (y # ys)"

definition Println :: "string list \<Rightarrow> world \<Rightarrow> world" where
  "Println m wd = wd\<lparr>stdout := stdout wd @ ''['' @ join_space m @ '']'' @ [newline]\<rparr>"

definition getTitle ::
  "ResponseWriter \<Rightarrow> request \<Rightarrow> world \<Rightarrow> ResponseWriter \<times> world \<times> (string + string)" where
  "getTitle w r wd =
     (case FindStringSubmatch validPath (URL_Path r) of
        None \<Rightarrow> (http_NotFound w r, wd, Inl ''invalid page title'')
      | Some m \<Rightarrow> (w, Println m wd, Inr (m ! 2)))"

subsection \<open>The handlers\<close>

text \<open>
  A handler takes the response writer and the request, as in the source, and here also
  the directory and output it works on, which it returns with the response. The parsed
  templates are a global of the program and a parameter of the two handlers that
  render. \<^verbatim>\<open>main\<close> registers the handlers under the prefixes /view/, /edit/
  and /save/ and starts the server; the router and the listener of \<^verbatim>\<open>net/http\<close>
  are not modelled, so every statement below is about a handler called on a request.
\<close>

definition viewHandler ::
  "templates \<Rightarrow> ResponseWriter \<Rightarrow> request \<Rightarrow> world \<Rightarrow> ResponseWriter \<times> world" where
  "viewHandler ts w r wd =
     (case getTitle w r wd of
        (w1, wd1, Inl err) \<Rightarrow> (w1, wd1)
      | (w1, wd1, Inr title) \<Rightarrow>
          (case loadpage title wd1 of
             Inl err \<Rightarrow> (http_Error w1 ''could not find page.'' 404, wd1)
           | Inr p \<Rightarrow> (renderTemplate ts w1 ''view'' p, wd1)))"

definition editHandler ::
  "templates \<Rightarrow> ResponseWriter \<Rightarrow> request \<Rightarrow> world \<Rightarrow> ResponseWriter \<times> world" where
  "editHandler ts w r wd =
     (case getTitle w r wd of
        (w1, wd1, Inl err) \<Rightarrow> (w1, wd1)
      | (w1, wd1, Inr title) \<Rightarrow>
          (let p = (case loadpage title wd1 of
                      Inl err \<Rightarrow> \<lparr>Title = title, Body = []\<rparr>
                    | Inr p \<Rightarrow> p)
           in (renderTemplate ts w1 ''edit'' p, wd1)))"

definition saveHandler ::
  "ResponseWriter \<Rightarrow> request \<Rightarrow> world \<Rightarrow> ResponseWriter \<times> world" where
  "saveHandler w r wd =
     (case getTitle w r wd of
        (w1, wd1, Inl err) \<Rightarrow> (w1, wd1)
      | (w1, wd1, Inr title) \<Rightarrow>
          (let body = FormValue r ''body'';
               p = \<lparr>Title = title, Body = body\<rparr>
           in case save p wd1 of
                (None, wd2) \<Rightarrow> (http_Redirect w1 r (''/view/'' @ title) 302, wd2)
              | (Some err, wd2) \<Rightarrow>
                  (http_Error w1 (''soemthing weird is happening: '' @ PathError_Error err) 500,
                   wd2)))"

subsection \<open>The path grammar and valid titles, as the specification words them\<close>

text \<open>
  A valid title is one or more ASCII letters or digits. A path of the grammar is
  \<^verbatim>\<open>/<verb>/<title>\<close> with the verb one of save, edit, view and a valid title.
  These two predicates are written from the specification; the code's own test is
  \<open>FindStringSubmatch validPath\<close>.
\<close>

definition alnum :: "char \<Rightarrow> bool" where
  "alnum c = (c \<in> set ''abcdefghijklmnopqrstuvwxyzABCDEFGHIJKLMNOPQRSTUVWXYZ0123456789'')"

definition valid_title :: "string \<Rightarrow> bool" where
  "valid_title t = (t \<noteq> [] \<and> list_all alnum t)"

definition grammar_path :: "string \<Rightarrow> bool" where
  "grammar_path p =
     (\<exists>verb title. (verb = ''save'' \<or> verb = ''edit'' \<or> verb = ''view'') \<and> valid_title title
        \<and> p = ''/'' @ verb @ ''/'' @ title)"

text \<open>A thread that has consumed the whole text.\<close>

definition at_end :: "thread \<Rightarrow> bool" where
  "at_end th = (fst (snd th) = [])"

text \<open>
  The threads of the part of \<open>validPath\<close> after the first slash, for one verb: used to
  state what the matcher computes.
\<close>

definition after_verb :: "string \<Rightarrow> string \<Rightarrow> thread list" where
  "after_verb v q =
     (if take (length v) q = v
      then (case drop (length v) q of [] \<Rightarrow> []
            | x # t \<Rightarrow> if x = CHR ''/'' \<and> valid_title t
                       then [(Suc (Suc (length v)) + length t, [], [(2, t), (1, v)])] else [])
      else [])"

section \<open>The matcher on validPath\<close>

text \<open>The three ranges of the class are exactly the letters and digits.\<close>

lemma in_title_class:
  "in_ranges [(CHR ''a'', CHR ''z''), (CHR ''A'', CHR ''Z''), (CHR ''0'', CHR ''9'')] c = alnum c"
proof (cases c)
  case (Char b0 b1 b2 b3 b4 b5 b6 b7)
  show ?thesis
    unfolding Char in_ranges_def alnum_def
    by (cases b0; cases b1; cases b2; cases b3; cases b4; cases b5; cases b6; cases b7; simp)
qed

declare run.simps(8) [simp del]

lemma run_Plus_Cls_Cons:
  "run (Plus (Cls rs)) (i, x # xs, c) =
     (if in_ranges rs x then run (Plus (Cls rs)) (Suc i, xs, c) @ [(Suc i, xs, c)] else [])"
  by (simp add: run.simps(8))

lemma run_Plus_Cls_Nil: "run (Plus (Cls rs)) (i, [], c) = []"
  by (simp add: run.simps(8))

lemma run_Plus_Cls_end:
  "filter at_end (run (Plus (Cls rs)) (i, s, c)) =
     (if s \<noteq> [] \<and> list_all (in_ranges rs) s then [(i + length s, [], c)] else [])"
proof (induction s arbitrary: i)
  case Nil
  show ?case by (simp add: run_Plus_Cls_Nil)
next
  case (Cons x xs)
  show ?case
  proof (cases xs)
    case Nil
    then show ?thesis by (simp add: run_Plus_Cls_Cons run_Plus_Cls_Nil at_end_def)
  next
    case (Cons y ys)
    then have ne: "xs \<noteq> []" by simp
    have "filter at_end [(Suc i, xs, c)] = []"
      using ne by (simp add: at_end_def)
    then have "filter at_end (run (Plus (Cls rs)) (i, x # xs, c)) =
        (if in_ranges rs x then filter at_end (run (Plus (Cls rs)) (Suc i, xs, c)) else [])"
      by (simp add: run_Plus_Cls_Cons)
    also have "\<dots> = (if in_ranges rs x
        then (if xs \<noteq> [] \<and> list_all (in_ranges rs) xs then [(Suc i + length xs, [], c)] else [])
        else [])"
      by (simp only: Cons.IH)
    also have "\<dots> = (if x # xs \<noteq> [] \<and> list_all (in_ranges rs) (x # xs)
        then [(i + length (x # xs), [], c)] else [])"
      using ne by simp
    finally show ?thesis .
  qed
qed

lemma run_Seq_Eol: "run (Seq a Eol) th = filter at_end (run a th)"
proof -
  obtain i s c where th: "th = (i, s, c)" by (cases th) auto
  have "concat (map (run Eol) ys) = filter at_end ys" for ys
    by (induction ys) (auto simp: at_end_def)
  then show ?thesis by (simp add: th)
qed

lemma filter_at_end_Grp:
  "filter at_end (run (Grp n a) (i, s, c)) =
     map (\<lambda>(j, t, d). (j, t, (n, take (j - i) s) # d)) (filter at_end (run a (i, s, c)))"
  by (simp add: filter_map comp_def case_prod_beta at_end_def [abs_def])

lemma run_title_end:
  "run (Seq (Grp n (Plus (Cls rs))) Eol) (i, s, c) =
     (if s \<noteq> [] \<and> list_all (in_ranges rs) s then [(i + length s, [], (n, s) # c)] else [])"
  by (simp only: run_Seq_Eol filter_at_end_Grp run_Plus_Cls_end) simp


lemma run_Str:
  "run (Str v) (i, s, c) =
     (if take (length v) s = v then [(i + length v, drop (length v) s, c)] else [])"
proof (induction v arbitrary: i s)
  case Nil
  show ?case by simp
next
  case (Cons x xs)
  show ?case
  proof (cases s)
    case Nil
    then show ?thesis by simp
  next
    case (Cons y ys)
    with Cons.IH [of "Suc i" ys] show ?thesis by simp
  qed
qed

lemma run_Seq_Bol: "run (Seq Bol b) (i, s, c) = (if i = 0 then run b (i, s, c) else [])"
  by simp

lemma run_Seq_Chr:
  "run (Seq (Chr a) b) (i, s, c) =
     (case s of [] \<Rightarrow> [] | x # xs \<Rightarrow> if x = a then run b (Suc i, xs, c) else [])"
  by (simp split: list.splits)

lemma title_class_alnum:
  "in_ranges [(CHR ''a'', CHR ''z''), (CHR ''A'', CHR ''Z''), (CHR ''0'', CHR ''9'')] = alnum"
  by (rule ext) (rule in_title_class)

lemma run_Grp_Str:
  "run (Grp n (Str v)) (i, s, c) =
     (if take (length v) s = v then [(i + length v, drop (length v) s, (n, v) # c)] else [])"
  by (simp add: run_Str del: Str.simps)

lemma run_Grp_Alt:
  "run (Grp n (Alt a b)) th = run (Grp n a) th @ run (Grp n b) th"
  by (cases th) simp

lemma run_Seq_Grp_Alt:
  "run (Seq (Grp n (Alt a a')) b) th = concat (map (run b) (run (Grp n (Alt a a')) th))"
  by (cases th) simp

lemma run_validPath:
  "run validPath (i, p, []) =
     (if i = 0 then
        (case p of [] \<Rightarrow> []
         | x # q \<Rightarrow> if x = CHR ''/''
                    then after_verb ''save'' q @ after_verb ''edit'' q @ after_verb ''view'' q
                    else [])
      else [])"
  unfolding validPath_def
  by (simp add: run_Seq_Bol run_Seq_Chr run_Seq_Grp_Alt run_Grp_Alt run_Grp_Str run_title_end
      title_class_alnum valid_title_def after_verb_def
      del: run.simps Str.simps split: list.splits)


lemma after_verb_match:
  "after_verb v (v @ CHR ''/'' # t) =
     (if valid_title t then [(Suc (Suc (length v)) + length t, [], [(2, t), (1, v)])] else [])"
  by (simp add: after_verb_def)

lemma after_verb_other:
  assumes "length v' = length v" and "v' \<noteq> v"
  shows "after_verb v' (v @ CHR ''/'' # t) = []"
  using assms by (simp add: after_verb_def)

lemma after_verb_Cons:
  assumes "after_verb v q = th # ths"
  shows "\<exists>t. valid_title t \<and> q = v @ CHR ''/'' # t"
proof -
  from assms have tk: "take (length v) q = v"
    by (auto simp: after_verb_def split: if_splits)
  with assms obtain t where dr: "drop (length v) q = CHR ''/'' # t" and vt: "valid_title t"
    by (auto simp: after_verb_def split: if_splits list.splits)
  have "q = take (length v) q @ drop (length v) q" by simp
  with tk dr have "q = v @ CHR ''/'' # t" by simp
  with vt show ?thesis by blast
qed

lemma scan_validPath_later: "0 < i \<Longrightarrow> scan validPath i s = None"
  by (induction s arbitrary: i) (simp_all add: run_validPath)

lemma scan_validPath:
  "scan validPath 0 p =
     (case run validPath (0, p, []) of [] \<Rightarrow> None | m # ms \<Rightarrow> Some (0, m))"
  by (cases p) (simp_all add: scan_validPath_later split: list.splits)

lemma groups_validPath: "groups validPath = [1, 2]"
  by (simp add: validPath_def)

lemma run_validPath_match:
  assumes "verb = ''save'' \<or> verb = ''edit'' \<or> verb = ''view''" and "valid_title t"
  shows "run validPath (0, CHR ''/'' # verb @ CHR ''/'' # t, []) =
           [(Suc (Suc (length verb)) + length t, [], [(2, t), (1, verb)])]"
proof -
  let ?q = "verb @ CHR ''/'' # t"
  have own: "after_verb verb ?q = [(Suc (Suc (length verb)) + length t, [], [(2, t), (1, verb)])]"
    using assms(2) by (simp add: after_verb_match)
  from assms(1) consider "verb = ''save''" | "verb = ''edit''" | "verb = ''view''" by blast
  then have "after_verb ''save'' ?q @ after_verb ''edit'' ?q @ after_verb ''view'' ?q =
      after_verb verb ?q"
  proof cases
    case 1
    have "after_verb ''edit'' ?q = []" "after_verb ''view'' ?q = []"
      by (rule after_verb_other; simp add: 1)+
    then show ?thesis using 1 by simp
  next
    case 2
    have "after_verb ''save'' ?q = []" "after_verb ''view'' ?q = []"
      by (rule after_verb_other; simp add: 2)+
    then show ?thesis using 2 by simp
  next
    case 3
    have "after_verb ''save'' ?q = []" "after_verb ''edit'' ?q = []"
      by (rule after_verb_other; simp add: 3)+
    then show ?thesis using 3 by simp
  qed
  with own show ?thesis
    by (simp add: run_validPath)
qed

lemma Find_valid:
  assumes "verb = ''save'' \<or> verb = ''edit'' \<or> verb = ''view''" and "valid_title t"
  shows "FindStringSubmatch validPath (''/'' @ verb @ ''/'' @ t) =
           Some [''/'' @ verb @ ''/'' @ t, verb, t]"
  using run_validPath_match [OF assms]
  by (simp add: FindStringSubmatch_def scan_validPath groups_validPath)

lemma Find_Some_grammar:
  assumes "FindStringSubmatch validPath p = Some m"
  shows "grammar_path p"
proof -
  from assms obtain th ths where r: "run validPath (0, p, []) = th # ths"
    by (auto simp: FindStringSubmatch_def scan_validPath split: list.splits)
  then obtain q where p: "p = CHR ''/'' # q"
    and a: "after_verb ''save'' q @ after_verb ''edit'' q @ after_verb ''view'' q = th # ths"
    by (auto simp: run_validPath split: list.splits if_splits)
  from a have "after_verb ''save'' q \<noteq> [] \<or> after_verb ''edit'' q \<noteq> []
      \<or> after_verb ''view'' q \<noteq> []"
    by auto
  then obtain v where v: "v = ''save'' \<or> v = ''edit'' \<or> v = ''view''"
    and ne: "after_verb v q \<noteq> []"
    by blast
  then obtain th' ths' where av: "after_verb v q = th' # ths'"
    by (cases "after_verb v q") auto
  from after_verb_Cons [OF av] obtain t where "valid_title t" and "q = v @ CHR ''/'' # t"
    by blast
  with p v show ?thesis
    unfolding grammar_path_def by auto
qed

lemma Find_not_grammar: "\<not> grammar_path p \<Longrightarrow> FindStringSubmatch validPath p = None"
  using Find_Some_grammar by (cases "FindStringSubmatch validPath p") auto


section \<open>Title extraction\<close>

lemma getTitle_match:
  assumes "verb = ''save'' \<or> verb = ''edit'' \<or> verb = ''view''" and "valid_title t"
    and "URL_Path r = ''/'' @ verb @ ''/'' @ t"
  shows "getTitle w r wd = (w, Println [''/'' @ verb @ ''/'' @ t, verb, t] wd, Inr t)"
  using Find_valid [OF assms(1,2)] assms(3)
  by (simp add: getTitle_def)

lemma getTitle_mismatch:
  assumes "\<not> grammar_path (URL_Path r)"
  shows "getTitle w r wd = (http_NotFound w r, wd, Inl ''invalid page title'')"
  using Find_not_grammar [OF assms]
  by (simp add: getTitle_def)

lemma http_Error_new:
  "http_Error new_response msg code =
     \<lparr>status = Some code,
      header = [''Content-Type'' \<mapsto> ''text/plain; charset=utf-8'',
                ''X-Content-Type-Options'' \<mapsto> ''nosniff''],
      body = msg @ [newline]\<rparr>"
  by (simp add: http_Error_def new_response_def Header_Del_def Header_Set_def WriteHeader_def
      Write_def Let_def)

lemma sent_status_http_Error_new: "sent_status (http_Error new_response msg code) = code"
  by (simp add: http_Error_new sent_status_def)

lemma body_http_Error_new: "body (http_Error new_response msg code) = msg @ [newline]"
  by (simp add: http_Error_new)

text \<open>
  C3: for every title of letters and digits and every verb of view, edit, save,
  title extraction on the path /verb/title succeeds and returns exactly the title (the
  second group, not the verb); it writes no response and prints the match.
\<close>

theorem getTitle_returns_title:
  assumes "valid_title t" and "verb = ''view'' \<or> verb = ''edit'' \<or> verb = ''save''"
  shows "getTitle w (r\<lparr>URL_Path := ''/'' @ verb @ ''/'' @ t\<rparr>) wd =
           (w, Println [''/'' @ verb @ ''/'' @ t, verb, t] wd, Inr t)"
  using assms by (intro getTitle_match) auto

theorem getTitle_returns_title_witness:
  "valid_title ''Page1'' \<and>
   getTitle new_response
       \<lparr>Method = ''GET'', URL_Path = ''/edit/Page1'', URL_Query = [], BodyForm = []\<rparr>
       \<lparr>files = Map.empty, stdout = [], faults = Map.empty\<rparr> =
     (new_response, \<lparr>files = Map.empty, stdout = ''[/edit/Page1 edit Page1]'' @ [newline],
        faults = Map.empty\<rparr>,
      Inr ''Page1'')"
  using getTitle_returns_title [of "''Page1''" "''edit''" new_response
      "\<lparr>Method = ''GET'', URL_Path = [], URL_Query = [], BodyForm = []\<rparr>"
      "\<lparr>files = Map.empty, stdout = [], faults = Map.empty\<rparr>"]
  by (simp add: valid_title_def alnum_def Println_def)

text \<open>
  C2: for every request path outside the grammar, title extraction fails with the
  404 reply of http.NotFound, and each handler stops there: its response is that reply
  and the directory and the output are as they were.
\<close>

theorem invalid_path_404:
  assumes "\<not> grammar_path (URL_Path r)"
  shows "getTitle new_response r wd = (http_NotFound new_response r, wd, Inl ''invalid page title'')
       \<and> sent_status (http_NotFound new_response r) = 404
       \<and> viewHandler ts new_response r wd = (http_NotFound new_response r, wd)
       \<and> editHandler ts new_response r wd = (http_NotFound new_response r, wd)
       \<and> saveHandler new_response r wd = (http_NotFound new_response r, wd)"
  using getTitle_mismatch [OF assms]
  by (simp add: viewHandler_def editHandler_def saveHandler_def http_NotFound_def
      sent_status_http_Error_new)

lemma not_grammar_examples:
  "\<not> grammar_path ''/view/../etc''" "\<not> grammar_path ''/view/''"
  "\<not> grammar_path ''/delete/abc''" "\<not> grammar_path ''/view/ab c''"
  by (auto simp: grammar_path_def valid_title_def alnum_def)


theorem invalid_path_404_witness:
  "\<not> grammar_path ''/view/../etc'' \<and> \<not> grammar_path ''/view/''
   \<and> \<not> grammar_path ''/delete/abc'' \<and> \<not> grammar_path ''/view/ab c''
   \<and> viewHandler Map.empty new_response
         \<lparr>Method = ''GET'', URL_Path = ''/view/../etc'', URL_Query = [], BodyForm = []\<rparr>
         \<lparr>files = [''etc.txt'' \<mapsto> File ''secret'' 384], stdout = [], faults = Map.empty\<rparr> =
       (\<lparr>status = Some 404,
         header = [''Content-Type'' \<mapsto> ''text/plain; charset=utf-8'',
                   ''X-Content-Type-Options'' \<mapsto> ''nosniff''],
         body = ''404 page not found'' @ [newline]\<rparr>,
        \<lparr>files = [''etc.txt'' \<mapsto> File ''secret'' 384], stdout = [], faults = Map.empty\<rparr>)
   \<and> editHandler Map.empty new_response
         \<lparr>Method = ''GET'', URL_Path = ''/view/'', URL_Query = [], BodyForm = []\<rparr>
         \<lparr>files = Map.empty, stdout = [], faults = Map.empty\<rparr> =
       (http_Error new_response ''404 page not found'' 404, \<lparr>files = Map.empty, stdout = [], faults = Map.empty\<rparr>)
   \<and> saveHandler new_response
         \<lparr>Method = ''POST'', URL_Path = ''/delete/abc'', URL_Query = [],
          BodyForm = [(''body'', ''x'')]\<rparr>
         \<lparr>files = Map.empty, stdout = [], faults = Map.empty\<rparr> =
       (http_Error new_response ''404 page not found'' 404, \<lparr>files = Map.empty, stdout = [], faults = Map.empty\<rparr>)
   \<and> saveHandler new_response
         \<lparr>Method = ''POST'', URL_Path = ''/view/ab c'', URL_Query = [],
          BodyForm = [(''body'', ''x'')]\<rparr>
         \<lparr>files = Map.empty, stdout = [], faults = Map.empty\<rparr> =
       (http_Error new_response ''404 page not found'' 404, \<lparr>files = Map.empty, stdout = [], faults = Map.empty\<rparr>)"
  using not_grammar_examples
    invalid_path_404 [of "\<lparr>Method = ''GET'', URL_Path = ''/view/../etc'', URL_Query = [], BodyForm = []\<rparr>"
      "\<lparr>files = [''etc.txt'' \<mapsto> File ''secret'' 384], stdout = [], faults = Map.empty\<rparr>" Map.empty]
    invalid_path_404 [of "\<lparr>Method = ''GET'', URL_Path = ''/view/'', URL_Query = [], BodyForm = []\<rparr>"
      "\<lparr>files = Map.empty, stdout = [], faults = Map.empty\<rparr>" Map.empty]
    invalid_path_404 [of "\<lparr>Method = ''POST'', URL_Path = ''/delete/abc'', URL_Query = [],
          BodyForm = [(''body'', ''x'')]\<rparr>"
      "\<lparr>files = Map.empty, stdout = [], faults = Map.empty\<rparr>" Map.empty]
    invalid_path_404 [of "\<lparr>Method = ''POST'', URL_Path = ''/view/ab c'', URL_Query = [],
          BodyForm = [(''body'', ''x'')]\<rparr>"
      "\<lparr>files = Map.empty, stdout = [], faults = Map.empty\<rparr>" Map.empty]
  by (simp add: http_NotFound_def http_Error_new)

section \<open>The page store\<close>

lemmas fs_defs =
  save_def WriteFile_def open_error_def path_error_def basename_def dirname_def mode_after_def
  filename_def loadpage_def ReadFile_def

lemma files_Println: "files (Println m wd) = files wd"
  by (simp add: Println_def)

lemma path_error_Println: "path_error name (Println m wd) = path_error name wd"
  by (simp add: path_error_def files_Println cong: option.case_cong if_cong)

lemma loadpage_Println: "loadpage t (Println m wd) = loadpage t wd"
  by (simp add: loadpage_def ReadFile_def files_Println path_error_Println
      cong: option.case_cong)

lemma open_error_Println: "open_error name (Println m wd) = open_error name wd"
  by (simp add: open_error_def files_Println path_error_Println cong: option.case_cong)

lemma mode_after_Println: "mode_after name perm (Println m wd) = mode_after name perm wd"
  by (simp add: mode_after_def files_Println)

lemma faults_Println: "faults (Println m wd) = faults wd"
  by (simp add: Println_def)

lemma WriteFile_Println:
  "WriteFile name data perm (Println m wd) =
     (fst (WriteFile name data perm wd), Println m (snd (WriteFile name data perm wd)))"
  by (simp add: WriteFile_def open_error_Println mode_after_Println faults_Println
      split: option.splits fault.splits)
     (simp add: Println_def)

lemma save_Println:
  "save p (Println m wd) = (fst (save p wd), Println m (snd (save p wd)))"
  by (simp add: save_def WriteFile_Println)

text \<open>A write that returns no error leaves exactly the data under the name.\<close>

lemma WriteFile_ok:
  assumes "fst (WriteFile name data perm wd) = None"
  shows "snd (WriteFile name data perm wd) =
           wd\<lparr>files := (files wd)(name \<mapsto> File data (mode_after name perm wd))\<rparr>"
  using assms by (simp add: WriteFile_def split: option.splits fault.splits)

lemma WriteFile_other:
  assumes "name' \<noteq> name"
  shows "files (snd (WriteFile name data perm wd)) name' = files wd name'"
  using assms by (simp add: WriteFile_def split: option.splits fault.splits)

text \<open>The directory part of a path is shorter than the path.\<close>

lemma dirname_shorter:
  assumes "dirname name = Some d"
  shows "length d < length name"
proof -
  let ?r = "dropWhile (\<lambda>c. c \<noteq> CHR ''/'') (rev name)"
  from assms have sl: "CHR ''/'' \<in> set name" and d: "d = rev (tl ?r)"
    by (auto simp: dirname_def split: if_splits)
  from sl have "?r \<noteq> []" by simp
  then have "length (tl ?r) < length ?r" by simp
  also have "length ?r \<le> length (rev name)" by (rule length_dropWhile_le)
  finally show ?thesis using d by simp
qed

text \<open>Writing under a name does not change where that name is looked for.\<close>

lemma path_error_written:
  "path_error name (wd\<lparr>files := (files wd)(name \<mapsto> File c m)\<rparr>) = path_error name wd"
proof (cases "dirname name")
  case None
  then show ?thesis by (simp add: path_error_def)
next
  case (Some d)
  from dirname_shorter [OF Some] have "d \<noteq> name" by auto
  with Some show ?thesis by (simp add: path_error_def)
qed

lemma open_error_written:
  assumes "open_error name wd = None"
  shows "open_error name (wd\<lparr>files := (files wd)(name \<mapsto> File c m)\<rparr>) = None"
  using assms by (simp add: open_error_def path_error_written split: option.splits)

lemma open_error_None_path:
  assumes "open_error name wd = None"
  shows "path_error name wd = None"
  using assms by (simp add: open_error_def split: option.splits)

lemma read_after_write:
  assumes "fst (WriteFile name data perm wd) = None"
  shows "ReadFile name (snd (WriteFile name data perm wd)) = Inr data"
proof -
  from assms have oe: "open_error name wd = None"
    by (simp add: WriteFile_def split: option.splits)
  show ?thesis
    by (simp add: WriteFile_ok [OF assms] ReadFile_def path_error_written
        open_error_None_path [OF oe])
qed

lemma load_after_save:
  assumes "fst (save p wd) = None"
  shows "loadpage (Title p) (snd (save p wd)) = Inr \<lparr>Title = Title p, Body = Body p\<rparr>"
  using read_after_write [of "filename (Title p)" "Body p" 384 wd] assms
  by (simp add: save_def loadpage_def)

text \<open>The file name of a valid title has no slash, so no directory part.\<close>

lemma alnum_not_slash: "alnum c \<Longrightarrow> c \<noteq> CHR ''/''"
  by (auto simp: alnum_def)

lemma dirname_filename:
  assumes "valid_title t"
  shows "dirname (filename t) = None"
proof -
  from assms have "CHR ''/'' \<notin> set t"
    using alnum_not_slash by (auto simp: valid_title_def list_all_iff)
  then show ?thesis by (simp add: dirname_def filename_def)
qed

lemma path_error_valid:
  assumes "valid_title t"
  shows "path_error (filename t) wd' = path_error (filename t) wd"
  by (simp add: path_error_def dirname_filename [OF assms])

lemma load_other:
  assumes "valid_title t2" and "filename t2 \<noteq> name"
  shows "loadpage t2 (snd (WriteFile name data perm wd)) = loadpage t2 wd"
  using path_error_valid [OF assms(1), of "snd (WriteFile name data perm wd)" wd]
  by (simp add: loadpage_def ReadFile_def WriteFile_other [OF assms(2)]
      cong: option.case_cong)

lemma mode_after_written:
  "mode_after name perm (wd\<lparr>files := (files wd)(name \<mapsto> File c m)\<rparr>) = m"
  by (simp add: mode_after_def)

lemma WriteFile_twice:
  "WriteFile name data perm (snd (WriteFile name data perm wd)) = WriteFile name data perm wd"
proof (cases "open_error name wd")
  case (Some e)
  then show ?thesis by (simp add: WriteFile_def)
next
  case None
  note oe = open_error_written [OF None]
  show ?thesis
  proof (cases "faults wd name")
    case None
    with \<open>open_error name wd = None\<close> show ?thesis
      by (simp add: WriteFile_def oe mode_after_written)
  next
    case (Some f)
    with \<open>open_error name wd = None\<close> show ?thesis
      by (cases f) (simp_all add: WriteFile_def oe mode_after_written)
  qed
qed

text \<open>
  C1: for every valid title t and every byte sequence B, the empty one included, once
  save of the page (t, B) has returned no error, loadpage of t succeeds and returns the page
  with body B.
\<close>

theorem save_then_load:
  assumes "valid_title t" and "fst (save \<lparr>Title = t, Body = B\<rparr> wd) = None"
  shows "loadpage t (snd (save \<lparr>Title = t, Body = B\<rparr> wd)) = Inr \<lparr>Title = t, Body = B\<rparr>"
  using load_after_save [OF assms(2)] by simp

theorem save_then_load_witness:
  "valid_title ''t''
   \<and> fst (save \<lparr>Title = ''t'', Body = []\<rparr> \<lparr>files = Map.empty, stdout = [], faults = Map.empty\<rparr>) = None
   \<and> loadpage ''t'' (snd (save \<lparr>Title = ''t'', Body = []\<rparr> \<lparr>files = Map.empty, stdout = [], faults = Map.empty\<rparr>))
       = Inr \<lparr>Title = ''t'', Body = []\<rparr>
   \<and> fst (save \<lparr>Title = ''t'', Body = ''new''\<rparr>
            \<lparr>files = [''t.txt'' \<mapsto> File ''old'' 420], stdout = [], faults = Map.empty\<rparr>) = None
   \<and> loadpage ''t'' (snd (save \<lparr>Title = ''t'', Body = ''new''\<rparr>
            \<lparr>files = [''t.txt'' \<mapsto> File ''old'' 420], stdout = [], faults = Map.empty\<rparr>))
       = Inr \<lparr>Title = ''t'', Body = ''new''\<rparr>"
proof -
  have v: "valid_title ''t''"
    by (simp add: valid_title_def alnum_def)
  have a: "fst (save \<lparr>Title = ''t'', Body = []\<rparr> \<lparr>files = Map.empty, stdout = [], faults = Map.empty\<rparr>) = None"
    by (simp add: fs_defs)
  have b: "fst (save \<lparr>Title = ''t'', Body = ''new''\<rparr>
            \<lparr>files = [''t.txt'' \<mapsto> File ''old'' 420], stdout = [], faults = Map.empty\<rparr>) = None"
    by (simp add: fs_defs)
  from v a b save_then_load [OF v a] save_then_load [OF v b] show ?thesis by simp
qed

text \<open>
  C4: for every page p, save is the call of WriteFile on the name Title + ".txt" with
  the body as it is and permission 0600 (384), and it returns an error exactly when that
  write does. When the write returns no error, the directory afterwards differs from
  the one before in that name only, which now holds a regular file whose contents are
  the body, byte for byte: created, with permission bits 0600, if the name was absent,
  and with the body in place of the old contents if a file was there.
\<close>

theorem save_writes_body:
  "save p wd = WriteFile (Title p @ ''.txt'') (Body p) (6 * 8 ^ 2) wd
   \<and> (fst (save p wd) = None) = (fst (WriteFile (Title p @ ''.txt'') (Body p) 384 wd) = None)
   \<and> (fst (save p wd) = None \<longrightarrow>
        snd (save p wd) =
          wd\<lparr>files := (files wd)(Title p @ ''.txt'' \<mapsto>
                File (Body p) (mode_after (Title p @ ''.txt'') 384 wd))\<rparr>
        \<and> (files wd (Title p @ ''.txt'') = None \<longrightarrow>
              mode_after (Title p @ ''.txt'') 384 wd = 384))"
  using WriteFile_ok [of "Title p @ ''.txt''" "Body p" 384 wd]
  by (simp add: save_def filename_def mode_after_def)

theorem save_writes_body_witness:
  "save \<lparr>Title = ''Foo'', Body = ''bar''\<rparr> \<lparr>files = Map.empty, stdout = [], faults = Map.empty\<rparr> =
     (None, \<lparr>files = [''Foo.txt'' \<mapsto> File ''bar'' 384], stdout = [], faults = Map.empty\<rparr>)
   \<and> save \<lparr>Title = ''Foo'', Body = ''bar''\<rparr>
        \<lparr>files = [''Foo.txt'' \<mapsto> File ''old text'' 420], stdout = [], faults = Map.empty\<rparr> =
     (None, \<lparr>files = [''Foo.txt'' \<mapsto> File ''bar'' 420], stdout = [], faults = Map.empty\<rparr>)"
proof -
  let ?p = "\<lparr>Title = ''Foo'', Body = ''bar''\<rparr>"
  let ?w1 = "\<lparr>files = Map.empty, stdout = [], faults = Map.empty\<rparr>"
  let ?w2 = "\<lparr>files = [''Foo.txt'' \<mapsto> File ''old text'' 420], stdout = [], faults = Map.empty\<rparr>"
  have a: "fst (save ?p ?w1) = None" "fst (save ?p ?w2) = None"
    by (simp_all add: fs_defs)
  have m: "mode_after ''Foo.txt'' 384 ?w1 = 384" "mode_after ''Foo.txt'' 384 ?w2 = 420"
    by (simp_all add: mode_after_def)
  from save_writes_body [of ?p ?w1, THEN conjunct2, THEN conjunct2] a(1) m(1)
  have "snd (save ?p ?w1) = \<lparr>files = [''Foo.txt'' \<mapsto> File ''bar'' 384], stdout = [], faults = Map.empty\<rparr>"
    by simp
  moreover from save_writes_body [of ?p ?w2, THEN conjunct2, THEN conjunct2] a(2) m(2)
  have "snd (save ?p ?w2) = \<lparr>files = [''Foo.txt'' \<mapsto> File ''bar'' 420], stdout = [], faults = Map.empty\<rparr>"
    by simp
  ultimately show ?thesis
    using a by (simp add: prod_eq_iff)
qed

text \<open>
  Where the write fails, save returns its error: a name that is a directory, a title
  with a slash whose directory is not there, a title of 252 letters (a name of 256
  bytes), and a write that the operating system refuses or cuts short. A name that is
  too long cannot be loaded either.
\<close>

lemma store_errors:
  "save \<lparr>Title = ''Foo'', Body = ''bar''\<rparr>
      \<lparr>files = [''Foo.txt'' \<mapsto> Dir], stdout = [], faults = Map.empty\<rparr> =
     (Some \<lparr>Op = ''open'', Path = ''Foo.txt'', Err = EISDIR\<rparr>,
      \<lparr>files = [''Foo.txt'' \<mapsto> Dir], stdout = [], faults = Map.empty\<rparr>)"
  "save \<lparr>Title = ''a/b'', Body = ''bar''\<rparr> \<lparr>files = Map.empty, stdout = [], faults = Map.empty\<rparr> =
     (Some \<lparr>Op = ''open'', Path = ''a/b.txt'', Err = ENOENT\<rparr>,
      \<lparr>files = Map.empty, stdout = [], faults = Map.empty\<rparr>)"
  "valid_title (replicate 252 CHR ''a'')"
  "save \<lparr>Title = replicate 252 CHR ''a'', Body = ''bar''\<rparr>
      \<lparr>files = Map.empty, stdout = [], faults = Map.empty\<rparr> =
     (Some \<lparr>Op = ''open'', Path = replicate 252 CHR ''a'' @ ''.txt'', Err = ENAMETOOLONG\<rparr>,
      \<lparr>files = Map.empty, stdout = [], faults = Map.empty\<rparr>)"
  "save \<lparr>Title = ''Foo'', Body = ''bar''\<rparr>
      \<lparr>files = [''Foo.txt'' \<mapsto> File ''old'' 292], stdout = [],
       faults = [''Foo.txt'' \<mapsto> Refuse EACCES]\<rparr> =
     (Some \<lparr>Op = ''open'', Path = ''Foo.txt'', Err = EACCES\<rparr>,
      \<lparr>files = [''Foo.txt'' \<mapsto> File ''old'' 292], stdout = [],
       faults = [''Foo.txt'' \<mapsto> Refuse EACCES]\<rparr>)"
  "save \<lparr>Title = ''Foo'', Body = ''bar''\<rparr>
      \<lparr>files = Map.empty, stdout = [], faults = [''Foo.txt'' \<mapsto> Cut ENOSPC 2]\<rparr> =
     (Some \<lparr>Op = ''write'', Path = ''Foo.txt'', Err = ENOSPC\<rparr>,
      \<lparr>files = [''Foo.txt'' \<mapsto> File ''ba'' 384], stdout = [],
       faults = [''Foo.txt'' \<mapsto> Cut ENOSPC 2]\<rparr>)"
  "loadpage (replicate 252 CHR ''a'') \<lparr>files = Map.empty, stdout = [], faults = Map.empty\<rparr> =
     Inl \<lparr>Op = ''open'', Path = replicate 252 CHR ''a'' @ ''.txt'', Err = ENAMETOOLONG\<rparr>"
  by (simp_all add: fs_defs valid_title_def alnum_def list_all_iff)

text \<open>
  C8: for every page p, saving it twice in succession leaves the directory (and so the
  stored file) exactly as a single save leaves it, and the second save returns what the
  first returned.
\<close>

theorem save_idempotent:
  "save p (snd (save p wd)) = save p wd"
  unfolding save_def by (rule WriteFile_twice)

text \<open>
  C9: over the valid titles the map from a title to its file name, title + ".txt", is
  one-to-one; so saving a page under one valid title leaves what loadpage returns for
  every other valid title as it was.
\<close>

theorem filename_injective:
  assumes "valid_title t1" and "valid_title t2"
  shows "(filename t1 = filename t2 \<longrightarrow> t1 = t2)
       \<and> (t1 \<noteq> t2 \<longrightarrow> loadpage t2 (snd (save \<lparr>Title = t1, Body = B\<rparr> wd)) = loadpage t2 wd)"
proof -
  have "loadpage t2 (snd (save \<lparr>Title = t1, Body = B\<rparr> wd)) = loadpage t2 wd" if "t1 \<noteq> t2"
    unfolding save_def using that by (intro load_other [OF assms(2)]) (simp add: filename_def)
  then show ?thesis by (simp add: filename_def)
qed

theorem filename_injective_witness:
  "valid_title ''Foo'' \<and> valid_title ''Fo'' \<and> filename ''Foo'' \<noteq> filename ''Fo''
   \<and> loadpage ''Fo'' (snd (save \<lparr>Title = ''Foo'', Body = ''bar''\<rparr>
         \<lparr>files = [''Fo.txt'' \<mapsto> File ''o'' 384], stdout = [], faults = Map.empty\<rparr>)) = Inr \<lparr>Title = ''Fo'', Body = ''o''\<rparr>"
proof -
  have v: "valid_title ''Foo''" "valid_title ''Fo''"
    by (simp_all add: valid_title_def alnum_def)
  have l: "loadpage ''Fo'' \<lparr>files = [''Fo.txt'' \<mapsto> File ''o'' 384], stdout = [], faults = Map.empty\<rparr> =
      Inr \<lparr>Title = ''Fo'', Body = ''o''\<rparr>"
    by (simp add: fs_defs)
  from v l filename_injective [OF v, of "''bar''" "\<lparr>files = [''Fo.txt'' \<mapsto> File ''o'' 384], stdout = [], faults = Map.empty\<rparr>"]
  show ?thesis by auto
qed


section \<open>Responses\<close>

lemma sent_status_Write: "sent_status (Write w d) = sent_status w"
  by (simp add: Write_def WriteHeader_def sent_status_def Let_def split: option.splits)

lemma body_Write: "body (Write w d) = body w @ d"
  by (simp add: Write_def WriteHeader_def Let_def)

lemma sent_status_foldl_Write: "sent_status (foldl Write w ps) = sent_status w"
  by (induction ps arbitrary: w) (simp_all add: sent_status_Write)

lemma body_foldl_Write: "body (foldl Write w ps) = body w @ concat ps"
  by (induction ps arbitrary: w) (simp_all add: body_Write)

lemma sent_status_new: "sent_status new_response = 200"
  by (simp add: sent_status_def new_response_def)

lemma body_new: "body new_response = []"
  by (simp add: new_response_def)

lemma http_Redirect_new:
  "sent_status (http_Redirect new_response r url code) = code"
  "header (http_Redirect new_response r url code) ''Location'' = Some url"
  by (simp_all add: http_Redirect_def new_response_def Header_Set_def WriteHeader_def Write_def
      sent_status_def Let_def)

lemma renderTemplate_ok:
  assumes "ts (tmpl @ ''.html'') = Some tpl" and "tpl p = (pieces, None)"
  shows "renderTemplate ts w tmpl p = foldl Write w pieces"
  using assms by (simp add: renderTemplate_def ExecuteTemplate_def)

section \<open>The handlers\<close>

lemma viewHandler_valid:
  assumes "valid_title t" and "URL_Path r = ''/view/'' @ t"
  shows "viewHandler ts w r wd =
     (case loadpage t wd of
        Inl err \<Rightarrow> http_Error w ''could not find page.'' 404
      | Inr p \<Rightarrow> renderTemplate ts w ''view'' p,
      Println [''/view/'' @ t, ''view'', t] wd)"
proof -
  have "getTitle w r wd = (w, Println [''/'' @ ''view'' @ ''/'' @ t, ''view'', t] wd, Inr t)"
    using assms by (intro getTitle_match) auto
  then show ?thesis
    by (simp add: viewHandler_def loadpage_Println split: sum.splits)
qed

lemma editHandler_valid:
  assumes "valid_title t" and "URL_Path r = ''/edit/'' @ t"
  shows "editHandler ts w r wd =
     (renderTemplate ts w ''edit''
        (case loadpage t wd of Inl err \<Rightarrow> \<lparr>Title = t, Body = []\<rparr> | Inr p \<Rightarrow> p),
      Println [''/edit/'' @ t, ''edit'', t] wd)"
proof -
  have "getTitle w r wd = (w, Println [''/'' @ ''edit'' @ ''/'' @ t, ''edit'', t] wd, Inr t)"
    using assms by (intro getTitle_match) auto
  then show ?thesis
    by (simp add: editHandler_def loadpage_Println)
qed

lemma saveHandler_valid:
  assumes "valid_title t" and "URL_Path r = ''/save/'' @ t"
  shows "saveHandler w r wd =
     (case fst (save \<lparr>Title = t, Body = FormValue r ''body''\<rparr> wd) of
        None \<Rightarrow> http_Redirect w r (''/view/'' @ t) 302
      | Some err \<Rightarrow>
          http_Error w (''soemthing weird is happening: '' @ PathError_Error err) 500,
      Println [''/save/'' @ t, ''save'', t]
        (snd (save \<lparr>Title = t, Body = FormValue r ''body''\<rparr> wd)))"
proof -
  have "getTitle w r wd = (w, Println [''/'' @ ''save'' @ ''/'' @ t, ''save'', t] wd, Inr t)"
    using assms by (intro getTitle_match) auto
  then show ?thesis
    by (simp add: saveHandler_def save_Println Let_def split: option.splits)
qed

text \<open>
  C5, as the code has it: for every valid title whose page load fails, viewHandler
  answers with status 404 and the body "could not find page." followed by a newline
  (http.Error prints the message as a line), whatever the templates are: the view
  template is not run.
\<close>

theorem view_missing_page:
  assumes "valid_title t" and "URL_Path r = ''/view/'' @ t" and "loadpage t wd = Inl e"
  shows "viewHandler ts new_response r wd =
           (http_Error new_response ''could not find page.'' 404,
            Println [''/view/'' @ t, ''view'', t] wd)
       \<and> sent_status (fst (viewHandler ts new_response r wd)) = 404
       \<and> body (fst (viewHandler ts new_response r wd)) = ''could not find page.'' @ [newline]
       \<and> viewHandler ts new_response r wd = viewHandler Map.empty new_response r wd"
  using assms(3)
  by (simp add: viewHandler_valid [OF assms(1,2)] sent_status_http_Error_new
      body_http_Error_new)

theorem view_missing_page_witness:
  "valid_title ''Missing''
   \<and> loadpage ''Missing'' \<lparr>files = Map.empty, stdout = [], faults = Map.empty\<rparr> =
       Inl \<lparr>Op = ''open'', Path = ''Missing.txt'', Err = ENOENT\<rparr>
   \<and> sent_status (fst (viewHandler Map.empty new_response
        \<lparr>Method = ''GET'', URL_Path = ''/view/Missing'', URL_Query = [], BodyForm = []\<rparr>
        \<lparr>files = Map.empty, stdout = [], faults = Map.empty\<rparr>)) = 404
   \<and> body (fst (viewHandler Map.empty new_response
        \<lparr>Method = ''GET'', URL_Path = ''/view/Missing'', URL_Query = [], BodyForm = []\<rparr>
        \<lparr>files = Map.empty, stdout = [], faults = Map.empty\<rparr>)) = ''could not find page.'' @ [newline]"
proof -
  have v: "valid_title ''Missing''"
    by (simp add: valid_title_def alnum_def)
  have l: "loadpage ''Missing'' \<lparr>files = Map.empty, stdout = [], faults = Map.empty\<rparr> =
       Inl \<lparr>Op = ''open'', Path = ''Missing.txt'', Err = ENOENT\<rparr>"
    by (simp add: fs_defs)
  have p: "URL_Path \<lparr>Method = ''GET'', URL_Path = ''/view/Missing'', URL_Query = [], BodyForm = []\<rparr>
      = ''/view/'' @ ''Missing''"
    by simp
  from v l view_missing_page [OF v p l, of Map.empty] show ?thesis
    by (simp add: sent_status_http_Error_new body_http_Error_new)
qed

text \<open>
  The body is not the bare text: on GET /view/Missing in an empty directory the load
  fails and the body written differs from "could not find page." by its final newline.
\<close>

theorem view_missing_page_body_counterexample:
  "valid_title ''Missing''
   \<and> loadpage ''Missing'' \<lparr>files = Map.empty, stdout = [], faults = Map.empty\<rparr> =
       Inl \<lparr>Op = ''open'', Path = ''Missing.txt'', Err = ENOENT\<rparr>
   \<and> body (fst (viewHandler Map.empty new_response
        \<lparr>Method = ''GET'', URL_Path = ''/view/Missing'', URL_Query = [], BodyForm = []\<rparr>
        \<lparr>files = Map.empty, stdout = [], faults = Map.empty\<rparr>)) \<noteq> ''could not find page.''"
proof -
  have v: "valid_title ''Missing''"
    by (simp add: valid_title_def alnum_def)
  have l: "loadpage ''Missing'' \<lparr>files = Map.empty, stdout = [], faults = Map.empty\<rparr> =
       Inl \<lparr>Op = ''open'', Path = ''Missing.txt'', Err = ENOENT\<rparr>"
    by (simp add: fs_defs)
  have p: "URL_Path \<lparr>Method = ''GET'', URL_Path = ''/view/Missing'', URL_Query = [], BodyForm = []\<rparr>
      = ''/view/'' @ ''Missing''"
    by simp
  from v l show ?thesis
    by (simp add: viewHandler_valid [OF v p] body_http_Error_new)
qed


text \<open>
  C6: for every valid title whose page load fails, editHandler renders the "edit"
  template with the page of that title and an empty body, and the failed load puts no
  error in the response: when the template runs to its end the client gets status 200
  and the template's output.
\<close>

theorem edit_missing_page:
  assumes "valid_title t" and "URL_Path r = ''/edit/'' @ t" and "loadpage t wd = Inl e"
  shows "editHandler ts new_response r wd =
           (renderTemplate ts new_response ''edit'' \<lparr>Title = t, Body = []\<rparr>,
            Println [''/edit/'' @ t, ''edit'', t] wd)
       \<and> (ts ''edit.html'' = Some tpl \<longrightarrow> tpl \<lparr>Title = t, Body = []\<rparr> = (pieces, None) \<longrightarrow>
            sent_status (fst (editHandler ts new_response r wd)) = 200
            \<and> body (fst (editHandler ts new_response r wd)) = concat pieces)"
proof -
  have eq: "editHandler ts new_response r wd =
           (renderTemplate ts new_response ''edit'' \<lparr>Title = t, Body = []\<rparr>,
            Println [''/edit/'' @ t, ''edit'', t] wd)"
    using assms(3) by (simp add: editHandler_valid [OF assms(1,2)])
  have "sent_status (renderTemplate ts new_response ''edit'' \<lparr>Title = t, Body = []\<rparr>) = 200
      \<and> body (renderTemplate ts new_response ''edit'' \<lparr>Title = t, Body = []\<rparr>) = concat pieces"
    if "ts ''edit.html'' = Some tpl" and "tpl \<lparr>Title = t, Body = []\<rparr> = (pieces, None)"
    using that
    by (simp add: renderTemplate_ok [where tpl = tpl and pieces = pieces]
        sent_status_foldl_Write body_foldl_Write sent_status_new body_new)
  with eq show ?thesis by simp
qed

theorem edit_missing_page_witness:
  "valid_title ''NewPage''
   \<and> loadpage ''NewPage'' \<lparr>files = Map.empty, stdout = [], faults = Map.empty\<rparr> =
       Inl \<lparr>Op = ''open'', Path = ''NewPage.txt'', Err = ENOENT\<rparr>
   \<and> sent_status (fst (editHandler
        [''edit.html'' \<mapsto> (\<lambda>p. ([''<h1>Editing '', Title p, ''</h1><textarea>'', Body p,
                                            ''</textarea>''], None))]
        new_response
        \<lparr>Method = ''GET'', URL_Path = ''/edit/NewPage'', URL_Query = [], BodyForm = []\<rparr>
        \<lparr>files = Map.empty, stdout = [], faults = Map.empty\<rparr>)) = 200
   \<and> body (fst (editHandler
        [''edit.html'' \<mapsto> (\<lambda>p. ([''<h1>Editing '', Title p, ''</h1><textarea>'', Body p,
                                            ''</textarea>''], None))]
        new_response
        \<lparr>Method = ''GET'', URL_Path = ''/edit/NewPage'', URL_Query = [], BodyForm = []\<rparr>
        \<lparr>files = Map.empty, stdout = [], faults = Map.empty\<rparr>)) = ''<h1>Editing NewPage</h1><textarea></textarea>''"
proof -
  have v: "valid_title ''NewPage''"
    by (simp add: valid_title_def alnum_def)
  have l: "loadpage ''NewPage'' \<lparr>files = Map.empty, stdout = [], faults = Map.empty\<rparr> =
       Inl \<lparr>Op = ''open'', Path = ''NewPage.txt'', Err = ENOENT\<rparr>"
    by (simp add: fs_defs)
  have p: "URL_Path \<lparr>Method = ''GET'', URL_Path = ''/edit/NewPage'', URL_Query = [], BodyForm = []\<rparr>
      = ''/edit/'' @ ''NewPage''"
    by simp
  from v l edit_missing_page [OF v p l,
      of "[''edit.html'' \<mapsto> (\<lambda>p. ([''<h1>Editing '', Title p, ''</h1><textarea>'', Body p,
                                            ''</textarea>''], None))]"
         "\<lambda>p. ([''<h1>Editing '', Title p, ''</h1><textarea>'', Body p, ''</textarea>''], None)"
         "[''<h1>Editing '', ''NewPage'', ''</h1><textarea>'', [], ''</textarea>'']",
      THEN conjunct2]
  show ?thesis by simp
qed

text \<open>
  C7: for every valid title, saveHandler takes the form value "body" (the empty string
  when the field is missing), saves the page of that title and body, and then: if save
  returned no error, answers 302 with Location /view/title, and the page is stored; if
  save returned an error, answers 500 with the error's text in the body.
\<close>

theorem save_request:
  assumes "valid_title t" and "URL_Path r = ''/save/'' @ t"
    and "p = \<lparr>Title = t, Body = FormValue r ''body''\<rparr>"
  shows "(map_of (Form r) ''body'' = None \<longrightarrow> FormValue r ''body'' = [])
       \<and> snd (saveHandler new_response r wd) = Println [''/save/'' @ t, ''save'', t] (snd (save p wd))
       \<and> (fst (save p wd) = None \<longrightarrow>
            sent_status (fst (saveHandler new_response r wd)) = 302
            \<and> header (fst (saveHandler new_response r wd)) ''Location'' = Some (''/view/'' @ t)
            \<and> loadpage t (snd (saveHandler new_response r wd)) = Inr p)
       \<and> (fst (save p wd) = Some err \<longrightarrow>
            sent_status (fst (saveHandler new_response r wd)) = 500
            \<and> body (fst (saveHandler new_response r wd)) =
                ''soemthing weird is happening: '' @ PathError_Error err @ [newline])"
proof -
  have fv: "map_of (Form r) ''body'' = None \<longrightarrow> FormValue r ''body'' = []"
    by (simp add: FormValue_def)
  have ld: "loadpage t (snd (save p wd)) = Inr p" if "fst (save p wd) = None"
    using load_after_save [OF that] assms(3) by simp
  have h: "saveHandler new_response r wd =
     (case fst (save p wd) of
        None \<Rightarrow> http_Redirect new_response r (''/view/'' @ t) 302
      | Some err \<Rightarrow>
          http_Error new_response (''soemthing weird is happening: '' @ PathError_Error err) 500,
      Println [''/save/'' @ t, ''save'', t] (snd (save p wd)))"
    unfolding assms(3) by (rule saveHandler_valid [OF assms(1,2)])
  from ld have "(fst (save p wd) = None \<longrightarrow>
            sent_status (fst (saveHandler new_response r wd)) = 302
            \<and> header (fst (saveHandler new_response r wd)) ''Location'' = Some (''/view/'' @ t)
            \<and> loadpage t (snd (saveHandler new_response r wd)) = Inr p)"
    by (simp add: h http_Redirect_new loadpage_Println)
  moreover have "(fst (save p wd) = Some err \<longrightarrow>
            sent_status (fst (saveHandler new_response r wd)) = 500
            \<and> body (fst (saveHandler new_response r wd)) =
                ''soemthing weird is happening: '' @ PathError_Error err @ [newline])"
    by (simp add: h sent_status_http_Error_new body_http_Error_new)
  moreover have "snd (saveHandler new_response r wd) =
      Println [''/save/'' @ t, ''save'', t] (snd (save p wd))"
    by (simp add: h)
  ultimately show ?thesis using fv by blast
qed


theorem save_request_witness:
  "valid_title ''Foo''
   \<and> sent_status (fst (saveHandler new_response
        \<lparr>Method = ''POST'', URL_Path = ''/save/Foo'', URL_Query = [], BodyForm = [(''body'', ''bar'')]\<rparr>
        \<lparr>files = Map.empty, stdout = [], faults = Map.empty\<rparr>)) = 302
   \<and> header (fst (saveHandler new_response
        \<lparr>Method = ''POST'', URL_Path = ''/save/Foo'', URL_Query = [], BodyForm = [(''body'', ''bar'')]\<rparr>
        \<lparr>files = Map.empty, stdout = [], faults = Map.empty\<rparr>)) ''Location'' = Some ''/view/Foo''
   \<and> loadpage ''Foo'' (snd (saveHandler new_response
        \<lparr>Method = ''POST'', URL_Path = ''/save/Foo'', URL_Query = [], BodyForm = [(''body'', ''bar'')]\<rparr>
        \<lparr>files = Map.empty, stdout = [], faults = Map.empty\<rparr>)) = Inr \<lparr>Title = ''Foo'', Body = ''bar''\<rparr>
   \<and> loadpage ''Foo'' (snd (saveHandler new_response
        \<lparr>Method = ''POST'', URL_Path = ''/save/Foo'', URL_Query = [], BodyForm = [(''other'', ''x'')]\<rparr>
        \<lparr>files = Map.empty, stdout = [], faults = Map.empty\<rparr>)) = Inr \<lparr>Title = ''Foo'', Body = []\<rparr>
   \<and> sent_status (fst (saveHandler new_response
        \<lparr>Method = ''POST'', URL_Path = ''/save/Foo'', URL_Query = [], BodyForm = [(''body'', ''bar'')]\<rparr>
        \<lparr>files = [''Foo.txt'' \<mapsto> Dir], stdout = [], faults = Map.empty\<rparr>)) = 500
   \<and> body (fst (saveHandler new_response
        \<lparr>Method = ''POST'', URL_Path = ''/save/Foo'', URL_Query = [], BodyForm = [(''body'', ''bar'')]\<rparr>
        \<lparr>files = [''Foo.txt'' \<mapsto> Dir], stdout = [], faults = Map.empty\<rparr>)) =
       ''soemthing weird is happening: open Foo.txt: is a directory'' @ [newline]"
proof -
  have v: "valid_title ''Foo''"
    by (simp add: valid_title_def alnum_def)
  let ?r = "\<lparr>Method = ''POST'', URL_Path = ''/save/Foo'', URL_Query = [],
             BodyForm = [(''body'', ''bar'')]\<rparr>"
  let ?r' = "\<lparr>Method = ''POST'', URL_Path = ''/save/Foo'', URL_Query = [],
             BodyForm = [(''other'', ''x'')]\<rparr>"
  have p: "URL_Path ?r = ''/save/'' @ ''Foo''" "URL_Path ?r' = ''/save/'' @ ''Foo''"
    by simp_all
  have f: "FormValue ?r ''body'' = ''bar''" "FormValue ?r' ''body'' = []"
    by (simp_all add: FormValue_def Form_def)
  have s1: "fst (save \<lparr>Title = ''Foo'', Body = b\<rparr> \<lparr>files = Map.empty, stdout = [], faults = Map.empty\<rparr>) = None" for b
    by (simp add: fs_defs)
  have s2: "fst (save \<lparr>Title = ''Foo'', Body = ''bar''\<rparr> \<lparr>files = [''Foo.txt'' \<mapsto> Dir], stdout = [], faults = Map.empty\<rparr>)
      = Some \<lparr>Op = ''open'', Path = ''Foo.txt'', Err = EISDIR\<rparr>"
    by (simp add: fs_defs)
  have e: "PathError_Error \<lparr>Op = ''open'', Path = ''Foo.txt'', Err = EISDIR\<rparr> =
      ''open Foo.txt: is a directory''"
    by (simp add: PathError_Error_def)
  from v s1 s2 e
    save_request [OF v p(1), of "\<lparr>Title = ''Foo'', Body = ''bar''\<rparr>" "\<lparr>files = Map.empty, stdout = [], faults = Map.empty\<rparr>"]
    save_request [OF v p(2), of "\<lparr>Title = ''Foo'', Body = []\<rparr>" "\<lparr>files = Map.empty, stdout = [], faults = Map.empty\<rparr>"]
    save_request [OF v p(1), of "\<lparr>Title = ''Foo'', Body = ''bar''\<rparr>"
      "\<lparr>files = [''Foo.txt'' \<mapsto> Dir], stdout = [], faults = Map.empty\<rparr>"
      "\<lparr>Op = ''open'', Path = ''Foo.txt'', Err = EISDIR\<rparr>"]
  show ?thesis
    by (simp add: f files_Println fs_defs)
qed

text \<open>
  C10: saveHandler does not look at the request method. For every method, a request
  with the path /save/title, title valid, has the page saved and, save having returned
  no error, is answered 302 with Location /view/title; the method matters only to the
  library's FormValue, so two requests with the same "body" value leave the same
  directory and get the same status, whatever their methods.
\<close>

theorem save_any_method:
  assumes "valid_title t" and "URL_Path r = ''/save/'' @ t"
    and "fst (save \<lparr>Title = t, Body = FormValue (r\<lparr>Method := m\<rparr>) ''body''\<rparr> wd) = None"
  shows "sent_status (fst (saveHandler new_response (r\<lparr>Method := m\<rparr>) wd)) = 302
       \<and> header (fst (saveHandler new_response (r\<lparr>Method := m\<rparr>) wd)) ''Location'' =
           Some (''/view/'' @ t)
       \<and> loadpage t (snd (saveHandler new_response (r\<lparr>Method := m\<rparr>) wd)) =
           Inr \<lparr>Title = t, Body = FormValue (r\<lparr>Method := m\<rparr>) ''body''\<rparr>
       \<and> (FormValue (r\<lparr>Method := m\<rparr>) ''body'' = FormValue r ''body'' \<longrightarrow>
            snd (saveHandler new_response (r\<lparr>Method := m\<rparr>) wd) =
              snd (saveHandler new_response r wd)
            \<and> sent_status (fst (saveHandler new_response r wd)) = 302)"
proof -
  let ?rm = "r\<lparr>Method := m\<rparr>"
  have pm: "URL_Path ?rm = ''/save/'' @ t"
    using assms(2) by simp
  have ld: "loadpage t (snd (save \<lparr>Title = t, Body = FormValue ?rm ''body''\<rparr> wd))
      = Inr \<lparr>Title = t, Body = FormValue ?rm ''body''\<rparr>"
    using load_after_save [OF assms(3)] by simp
  have a: "sent_status (fst (saveHandler new_response ?rm wd)) = 302
       \<and> header (fst (saveHandler new_response ?rm wd)) ''Location'' = Some (''/view/'' @ t)
       \<and> loadpage t (snd (saveHandler new_response ?rm wd)) =
           Inr \<lparr>Title = t, Body = FormValue ?rm ''body''\<rparr>"
    using assms(3) ld
    by (simp add: saveHandler_valid [OF assms(1) pm] http_Redirect_new loadpage_Println)
  have b: "snd (saveHandler new_response ?rm wd) = snd (saveHandler new_response r wd)
            \<and> sent_status (fst (saveHandler new_response r wd)) = 302"
    if eq: "FormValue ?rm ''body'' = FormValue r ''body''"
  proof -
    from assms(3) have "fst (save \<lparr>Title = t, Body = FormValue r ''body''\<rparr> wd) = None"
      by (simp only: eq)
    then show ?thesis
      by (simp add: saveHandler_valid [OF assms(1) pm] saveHandler_valid [OF assms(1,2)]
          http_Redirect_new eq)
  qed
  from a b show ?thesis by blast
qed

theorem save_any_method_witness:
  "valid_title ''Foo''
   \<and> sent_status (fst (saveHandler new_response
        \<lparr>Method = ''GET'', URL_Path = ''/save/Foo'', URL_Query = [(''body'', ''q'')],
         BodyForm = [(''body'', ''b'')]\<rparr> \<lparr>files = Map.empty, stdout = [], faults = Map.empty\<rparr>)) = 302
   \<and> loadpage ''Foo'' (snd (saveHandler new_response
        \<lparr>Method = ''GET'', URL_Path = ''/save/Foo'', URL_Query = [(''body'', ''q'')],
         BodyForm = [(''body'', ''b'')]\<rparr> \<lparr>files = Map.empty, stdout = [], faults = Map.empty\<rparr>)) =
       Inr \<lparr>Title = ''Foo'', Body = ''q''\<rparr>
   \<and> sent_status (fst (saveHandler new_response
        \<lparr>Method = ''PUT'', URL_Path = ''/save/Foo'', URL_Query = [(''body'', ''q'')],
         BodyForm = [(''body'', ''b'')]\<rparr> \<lparr>files = Map.empty, stdout = [], faults = Map.empty\<rparr>)) = 302
   \<and> header (fst (saveHandler new_response
        \<lparr>Method = ''PUT'', URL_Path = ''/save/Foo'', URL_Query = [(''body'', ''q'')],
         BodyForm = [(''body'', ''b'')]\<rparr> \<lparr>files = Map.empty, stdout = [], faults = Map.empty\<rparr>)) ''Location'' =
       Some ''/view/Foo''
   \<and> loadpage ''Foo'' (snd (saveHandler new_response
        \<lparr>Method = ''PUT'', URL_Path = ''/save/Foo'', URL_Query = [(''body'', ''q'')],
         BodyForm = [(''body'', ''b'')]\<rparr> \<lparr>files = Map.empty, stdout = [], faults = Map.empty\<rparr>)) =
       Inr \<lparr>Title = ''Foo'', Body = ''b''\<rparr>
   \<and> sent_status (fst (saveHandler new_response
        \<lparr>Method = ''DELETE'', URL_Path = ''/save/Foo'', URL_Query = [(''body'', ''q'')],
         BodyForm = [(''body'', ''b'')]\<rparr> \<lparr>files = Map.empty, stdout = [], faults = Map.empty\<rparr>)) = 302"
proof -
  have v: "valid_title ''Foo''"
    by (simp add: valid_title_def alnum_def)
  let ?r = "\<lambda>m. \<lparr>Method = m, URL_Path = ''/save/Foo'', URL_Query = [(''body'', ''q'')],
         BodyForm = [(''body'', ''b'')]\<rparr>"
  have p: "URL_Path (?r m) = ''/save/'' @ ''Foo''" for m
    by simp
  have s: "fst (save \<lparr>Title = ''Foo'', Body = b\<rparr> \<lparr>files = Map.empty, stdout = [], faults = Map.empty\<rparr>) = None" for b
    by (simp add: fs_defs)
  have g: "sent_status (fst (saveHandler new_response (?r ''GET'') \<lparr>files = Map.empty, stdout = [], faults = Map.empty\<rparr>)) = 302
     \<and> loadpage ''Foo'' (snd (saveHandler new_response (?r ''GET'') \<lparr>files = Map.empty, stdout = [], faults = Map.empty\<rparr>))
         = Inr \<lparr>Title = ''Foo'', Body = ''q''\<rparr>"
    using save_any_method [OF v p s, of "''GET''" "''GET''"]
    by (simp add: FormValue_def Form_def)
  have u: "sent_status (fst (saveHandler new_response (?r ''PUT'') \<lparr>files = Map.empty, stdout = [], faults = Map.empty\<rparr>)) = 302
     \<and> header (fst (saveHandler new_response (?r ''PUT'') \<lparr>files = Map.empty, stdout = [], faults = Map.empty\<rparr>))
         ''Location'' = Some ''/view/Foo''
     \<and> loadpage ''Foo'' (snd (saveHandler new_response (?r ''PUT'') \<lparr>files = Map.empty, stdout = [], faults = Map.empty\<rparr>))
         = Inr \<lparr>Title = ''Foo'', Body = ''b''\<rparr>"
    using save_any_method [OF v p s, of "''PUT''" "''PUT''"]
    by (simp add: FormValue_def Form_def)
  have d: "sent_status (fst (saveHandler new_response (?r ''DELETE'') \<lparr>files = Map.empty, stdout = [], faults = Map.empty\<rparr>)) = 302"
    using save_any_method [OF v p s, of "''DELETE''" "''DELETE''"]
    by simp
  from v g u d show ?thesis by simp
qed


end
